theory Spec2Isabelle
  imports Complex_Main "HOL-Library.Char_ord" "HOL-Library.List_Lexorder"
    "HOL-Library.Product_Lexorder"
begin

section \<open>Error categories and the penalty table\<close>

text \<open>
  The program is a Python script. Its error categories are Chinese string literals. A Python
  \<open>str\<close> is modelled as a \<^typ>\<open>string\<close> holding the UTF-8 encoding of the text: the
  encoding is injective, so equality of labels, membership in a list and dictionary lookup
  agree with Python's, and the byte-wise lexicographic order agrees with Python's order by
  code point. Each label is given a name here; the comment lists its code points.
\<close>

definition SAFETY_HAZARD :: string where
  \<comment> \<open>safety hazard: code points U+5B89 U+5168 U+9690 U+60A3, as UTF-8 bytes\<close>
  "SAFETY_HAZARD =
    [CHR 0xE5, CHR 0xAE, CHR 0x89, CHR 0xE5, CHR 0x85, CHR 0xA8, CHR 0xE9, CHR 0x9A, CHR 0x90, CHR 0xE6, CHR 0x82, CHR 0xA3]"

definition WASTE_NOT_HANDLED :: string where
  \<comment> \<open>waste not handled as prescribed: code points U+672A U+6309 U+89C4 U+5B9A U+5904 U+7406 U+5E9F U+5F03 U+7269, as UTF-8 bytes\<close>
  "WASTE_NOT_HANDLED =
    [CHR 0xE6, CHR 0x9C, CHR 0xAA, CHR 0xE6, CHR 0x8C, CHR 0x89, CHR 0xE8, CHR 0xA7, CHR 0x84, CHR 0xE5, CHR 0xAE, CHR 0x9A, CHR 0xE5, CHR 0xA4, CHR 0x84, CHR 0xE7, CHR 0x90, CHR 0x86, CHR 0xE5, CHR 0xBA, CHR 0x9F, CHR 0xE5, CHR 0xBC, CHR 0x83, CHR 0xE7, CHR 0x89, CHR 0xA9]"

definition HANDOVER_NOT_RECORDED :: string where
  \<comment> \<open>handover or record not done: code points U+672A U+505A U+597D U+4EA4 U+63A5 U+002F U+8BB0 U+5F55, as UTF-8 bytes\<close>
  "HANDOVER_NOT_RECORDED =
    [CHR 0xE6, CHR 0x9C, CHR 0xAA, CHR 0xE5, CHR 0x81, CHR 0x9A, CHR 0xE5, CHR 0xA5, CHR 0xBD, CHR 0xE4, CHR 0xBA, CHR 0xA4, CHR 0xE6, CHR 0x8E, CHR 0xA5, CHR 0x2F, CHR 0xE8, CHR 0xAE, CHR 0xB0, CHR 0xE5, CHR 0xBD, CHR 0x95]"

definition NO_STATUS_TAG :: string where
  \<comment> \<open>status tag not hung: code points U+672A U+6302 U+6807 U+8BC6 U+724C, as UTF-8 bytes\<close>
  "NO_STATUS_TAG =
    [CHR 0xE6, CHR 0x9C, CHR 0xAA, CHR 0xE6, CHR 0x8C, CHR 0x82, CHR 0xE6, CHR 0xA0, CHR 0x87, CHR 0xE8, CHR 0xAF, CHR 0x86, CHR 0xE7, CHR 0x89, CHR 0x8C]"

definition LIQUID_SEAL_FAILED :: string where
  \<comment> \<open>liquid seal not acceptable: code points U+6DB2 U+5C01 U+4E0D U+5408 U+683C, as UTF-8 bytes\<close>
  "LIQUID_SEAL_FAILED =
    [CHR 0xE6, CHR 0xB6, CHR 0xB2, CHR 0xE5, CHR 0xB0, CHR 0x81, CHR 0xE4, CHR 0xB8, CHR 0x8D, CHR 0xE5, CHR 0x90, CHR 0x88, CHR 0xE6, CHR 0xA0, CHR 0xBC]"

definition PARAMETER_ERROR :: string where
  \<comment> \<open>wrong parameter setting: code points U+53C2 U+6570 U+8BBE U+7F6E U+9519 U+8BEF, as UTF-8 bytes\<close>
  "PARAMETER_ERROR =
    [CHR 0xE5, CHR 0x8F, CHR 0x82, CHR 0xE6, CHR 0x95, CHR 0xB0, CHR 0xE8, CHR 0xAE, CHR 0xBE, CHR 0xE7, CHR 0xBD, CHR 0xAE, CHR 0xE9, CHR 0x94, CHR 0x99, CHR 0xE8, CHR 0xAF, CHR 0xAF]"

definition WRONG_ORDER :: string where
  \<comment> \<open>wrong order of operations: code points U+64CD U+4F5C U+987A U+5E8F U+9519 U+8BEF, as UTF-8 bytes\<close>
  "WRONG_ORDER =
    [CHR 0xE6, CHR 0x93, CHR 0x8D, CHR 0xE4, CHR 0xBD, CHR 0x9C, CHR 0xE9, CHR 0xA1, CHR 0xBA, CHR 0xE5, CHR 0xBA, CHR 0x8F, CHR 0xE9, CHR 0x94, CHR 0x99, CHR 0xE8, CHR 0xAF, CHR 0xAF]"

definition MISSED_COUNT :: string where
  \<comment> \<open>count omitted: code points U+9057 U+6F0F U+6E05 U+70B9, as UTF-8 bytes\<close>
  "MISSED_COUNT =
    [CHR 0xE9, CHR 0x81, CHR 0x97, CHR 0xE6, CHR 0xBC, CHR 0x8F, CHR 0xE6, CHR 0xB8, CHR 0x85, CHR 0xE7, CHR 0x82, CHR 0xB9]"

definition MISPLACED :: string where
  \<comment> \<open>improper placement: code points U+653E U+7F6E U+4E0D U+5F53, as UTF-8 bytes\<close>
  "MISPLACED =
    [CHR 0xE6, CHR 0x94, CHR 0xBE, CHR 0xE7, CHR 0xBD, CHR 0xAE, CHR 0xE4, CHR 0xB8, CHR 0x8D, CHR 0xE5, CHR 0xBD, CHR 0x93]"

definition NOT_ON_TIME :: string where
  \<comment> \<open>not finished in time: code points U+672A U+53CA U+65F6 U+5B8C U+6210, as UTF-8 bytes\<close>
  "NOT_ON_TIME =
    [CHR 0xE6, CHR 0x9C, CHR 0xAA, CHR 0xE5, CHR 0x8F, CHR 0x8A, CHR 0xE6, CHR 0x97, CHR 0xB6, CHR 0xE5, CHR 0xAE, CHR 0x8C, CHR 0xE6, CHR 0x88, CHR 0x90]"

definition NOT_CLEAN :: string where
  \<comment> \<open>cleaning not thorough: code points U+6E05 U+6D01 U+4E0D U+5F7B U+5E95, as UTF-8 bytes\<close>
  "NOT_CLEAN =
    [CHR 0xE6, CHR 0xB8, CHR 0x85, CHR 0xE6, CHR 0xB4, CHR 0x81, CHR 0xE4, CHR 0xB8, CHR 0x8D, CHR 0xE5, CHR 0xBD, CHR 0xBB, CHR 0xE5, CHR 0xBA, CHR 0x95]"

definition NONSTANDARD_OPERATION :: string where
  \<comment> \<open>operation not according to the rules: code points U+64CD U+4F5C U+4E0D U+89C4 U+8303, as UTF-8 bytes\<close>
  "NONSTANDARD_OPERATION =
    [CHR 0xE6, CHR 0x93, CHR 0x8D, CHR 0xE4, CHR 0xBD, CHR 0x9C, CHR 0xE4, CHR 0xB8, CHR 0x8D, CHR 0xE8, CHR 0xA7, CHR 0x84, CHR 0xE8, CHR 0x8C, CHR 0x83]"

definition TOOLS_NOT_RETURNED :: string where
  \<comment> \<open>tools not returned to their place: code points U+5DE5 U+5177 U+002F U+5668 U+5177 U+672A U+5F52 U+4F4D, as UTF-8 bytes\<close>
  "TOOLS_NOT_RETURNED =
    [CHR 0xE5, CHR 0xB7, CHR 0xA5, CHR 0xE5, CHR 0x85, CHR 0xB7, CHR 0x2F, CHR 0xE5, CHR 0x99, CHR 0xA8, CHR 0xE5, CHR 0x85, CHR 0xB7, CHR 0xE6, CHR 0x9C, CHR 0xAA, CHR 0xE5, CHR 0xBD, CHR 0x92, CHR 0xE4, CHR 0xBD, CHR 0x8D]"

definition RECORDS_NONSTANDARD :: string where
  \<comment> \<open>records not according to the rules: code points U+6587 U+4EF6 U+8BB0 U+5F55 U+4E0D U+89C4 U+8303, as UTF-8 bytes\<close>
  "RECORDS_NONSTANDARD =
    [CHR 0xE6, CHR 0x96, CHR 0x87, CHR 0xE4, CHR 0xBB, CHR 0xB6, CHR 0xE8, CHR 0xAE, CHR 0xB0, CHR 0xE5, CHR 0xBD, CHR 0x95, CHR 0xE4, CHR 0xB8, CHR 0x8D, CHR 0xE8, CHR 0xA7, CHR 0x84, CHR 0xE8, CHR 0x8C, CHR 0x83]"

definition OTHER_ERROR :: string where
  \<comment> \<open>other error: code points U+5176 U+4ED6 U+9519 U+8BEF, as UTF-8 bytes\<close>
  "OTHER_ERROR =
    [CHR 0xE5, CHR 0x85, CHR 0xB6, CHR 0xE4, CHR 0xBB, CHR 0x96, CHR 0xE9, CHR 0x94, CHR 0x99, CHR 0xE8, CHR 0xAF, CHR 0xAF]"

text \<open>
  \<open>ERROR_PENALTIES\<close> is a dictionary literal with fifteen distinct keys, kept in the order of
  the source as an association list and read with \<^const>\<open>map_of\<close>.
\<close>

definition ERROR_PENALTIES :: "(string \<times> int) list" where
  "ERROR_PENALTIES =
    [(SAFETY_HAZARD, 30),
     (WASTE_NOT_HANDLED, 15),
     (HANDOVER_NOT_RECORDED, 12),
     (NO_STATUS_TAG, 10),
     (LIQUID_SEAL_FAILED, 10),
     (PARAMETER_ERROR, 10),
     (WRONG_ORDER, 8),
     (MISSED_COUNT, 8),
     (MISPLACED, 7),
     (NOT_ON_TIME, 7),
     (NOT_CLEAN, 6),
     (NONSTANDARD_OPERATION, 5),
     (TOOLS_NOT_RETURNED, 4),
     (RECORDS_NONSTANDARD, 3),
     (OTHER_ERROR, 5)]"

definition PREDEFINED_ERROR_OPTIONS :: "string list" where
  "PREDEFINED_ERROR_OPTIONS =
    [MISSED_COUNT, MISPLACED, HANDOVER_NOT_RECORDED, NO_STATUS_TAG, NOT_CLEAN,
     WASTE_NOT_HANDLED, TOOLS_NOT_RETURNED, LIQUID_SEAL_FAILED, RECORDS_NONSTANDARD,
     WRONG_ORDER, PARAMETER_ERROR, NONSTANDARD_OPERATION, NOT_ON_TIME, OTHER_ERROR]"

text \<open>Python's \<open>d.get(k, default)\<close>.\<close>

definition dict_get :: "('k \<times> 'v) list \<Rightarrow> 'k \<Rightarrow> 'v \<Rightarrow> 'v" where
  "dict_get d k dflt = (case map_of d k of Some v \<Rightarrow> v | None \<Rightarrow> dflt)"

section \<open>The scoring function\<close>

text \<open>
  The loop of \<open>calculate_score\<close> that adds up the penalties, with the running total
  \<open>total_error_penalty\<close> as accumulator. A label that is not a key of the table gets the
  penalty of the category "other error".
\<close>

fun sum_penalties :: "int \<Rightarrow> string list \<Rightarrow> int" where
  "sum_penalties total_error_penalty [] = total_error_penalty"
| "sum_penalties total_error_penalty (error_type # rest) =
     (let penalty = dict_get ERROR_PENALTIES error_type (dict_get ERROR_PENALTIES OTHER_ERROR 5)
      in sum_penalties (total_error_penalty + penalty) rest)"

text \<open>
  \<open>calculate_score\<close> is duck-typed in its first argument: the form passes a Python \<open>int\<close>,
  the docstring announces a \<open>float\<close>. The model is polymorphic in an ordered ring. At type
  \<^typ>\<open>int\<close> it is Python's arithmetic on unbounded integers. At type \<^typ>\<open>real\<close> it
  describes the function on floats wherever the single subtraction is exact; rounding,
  infinities and NaN are outside the model.
\<close>

definition calculate_score :: "'a::linordered_idom \<Rightarrow> string list \<Rightarrow> 'a" where
  "calculate_score completion_degree error_types_list =
    (let total_error_penalty = sum_penalties 0 error_types_list;
         score = completion_degree - of_int total_error_penalty;
         has_safety_hazard_in_errors = (SAFETY_HAZARD \<in> set error_types_list);
         score =
           (if completion_degree \<ge> 95 \<and> total_error_penalty = 0 then 100
            else if completion_degree \<ge> 90 \<and> \<not> has_safety_hazard_in_errors then max 85 score
            else if completion_degree \<ge> 80 \<and> \<not> has_safety_hazard_in_errors then max 75 score
            else if completion_degree < 70 then min score 60
            else score)
     in max 0 (min 100 score))"

section \<open>Records, scoring pass and aggregation\<close>

text \<open>
  A calendar date (\<open>datetime.date\<close>) is the triple of year, month and day; the lexicographic
  order of triples is the order of dates.
\<close>

type_synonym date = "nat \<times> nat \<times> nat"

text \<open>
  The two dictionaries of the program, one per entered operation and one per scored
  operation, share four keys; they are two extensions of the record of the shared keys. The
  form's slider delivers the completion degree as an integer.
\<close>

record op_common =
  employee_id :: string
  date :: date
  operation_description :: string
  error_types :: "string list"

record operation = op_common +
  operation_remark :: string
  completion_degree :: int
  has_safety_hazard_display :: string

record scored_op = op_common +
  score :: int

text \<open>
  A \<open>DataFrame\<close> is the list of its rows, so the empty frame with named columns is the empty
  list and \<open>df.empty\<close> is \<open>df = []\<close>. The loop of \<open>evaluate_all_operations\<close> appends one
  scored row per record to \<open>scored_ops\<close>.
\<close>

fun score_loop :: "scored_op list \<Rightarrow> operation list \<Rightarrow> scored_op list" where
  "score_loop scored_ops [] = scored_ops"
| "score_loop scored_ops (opn # rest) =
     (let score = calculate_score (completion_degree opn) (error_types opn)
      in score_loop
           (scored_ops @
             [\<lparr>employee_id = employee_id opn,
               date = date opn,
               operation_description = operation_description opn,
               error_types = error_types opn,
               score = score\<rparr>])
           rest)"

definition evaluate_all_operations :: "operation list \<Rightarrow> scored_op list" where
  "evaluate_all_operations operations_data =
     (if operations_data = [] then [] else score_loop [] operations_data)"

text \<open>
  The library call \<open>df.groupby(keys)['score'].mean().reset_index()\<close> of pandas: one row per
  distinct key, in ascending order of the keys, holding the arithmetic mean of the scores of
  the rows with that key. The mean is a float in the program and an exact real here.
\<close>

definition mean :: "int list \<Rightarrow> real" where
  "mean xs = of_int (sum_list xs) / of_nat (length xs)"

definition groupby_mean :: "(scored_op \<Rightarrow> 'k::linorder) \<Rightarrow> scored_op list \<Rightarrow> ('k \<times> real) list" where
  "groupby_mean key df =
     map (\<lambda>k. (k, mean (map score (filter (\<lambda>r. key r = k) df))))
       (sort (remdups (map key df)))"

text \<open>
  The two aggregations of the scoring handler, named after the frames they fill. Each has
  its own branch for an empty frame of scores.
\<close>

definition daily_employee_scores :: "scored_op list \<Rightarrow> ((string \<times> date) \<times> real) list" where
  "daily_employee_scores individual_op_scores =
     (if individual_op_scores \<noteq> []
      then groupby_mean (\<lambda>r. (employee_id r, date r)) individual_op_scores
      else [])"

definition overall_employee_scores :: "scored_op list \<Rightarrow> (string \<times> real) list" where
  "overall_employee_scores individual_op_scores =
     (if individual_op_scores \<noteq> []
      then groupby_mean employee_id individual_op_scores
      else [])"

text \<open>The session state of the script and the messages its handlers show.\<close>

record session_state =
  operations :: "operation list"
  individual_op_scores_df :: "scored_op list"
  daily_employee_scores_df :: "((string \<times> date) \<times> real) list"
  overall_employee_scores_df :: "(string \<times> real) list"

datatype notice = Success | Warning

text \<open>
  The handler of the button that starts the scoring: with no record it warns and leaves the
  state alone, otherwise it replaces the three derived frames.
\<close>

definition run_scoring :: "session_state \<Rightarrow> session_state \<times> notice" where
  "run_scoring st =
     (if operations st = [] then (st, Warning)
      else
        (let df = evaluate_all_operations (operations st)
         in (st\<lparr>individual_op_scores_df := df,
                 daily_employee_scores_df := daily_employee_scores df,
                 overall_employee_scores_df := overall_employee_scores df\<rparr>,
             Success)))"

section \<open>The entry form\<close>

text \<open>
  The values of the form's widgets at submission, under the widgets' keys. The two display
  strings of the hazard column are the words for yes (U+662F) and no (U+5426).
\<close>

record form_input =
  employee_id_input :: string
  op_date_input :: date
  op_desc_selectbox :: string
  op_remark_input :: string
  comp_deg_input :: int
  error_types_multiselect :: "string list"
  safety_hazard_input :: bool

definition YES :: string where
  "YES = [CHR 0xE6, CHR 0x98, CHR 0xAF]"

definition NO :: string where
  "NO = [CHR 0xE5, CHR 0x90, CHR 0xA6]"

text \<open>
  The submit handler: a record is appended when the employee and the description are not
  empty, and the hazard label is appended to the selected labels when the checkbox is set.
\<close>

definition add_operation :: "form_input \<Rightarrow> operation list \<Rightarrow> operation list \<times> notice" where
  "add_operation f ops =
     (if employee_id_input f \<noteq> [] \<and> op_desc_selectbox f \<noteq> [] then
        (let final_error_types = error_types_multiselect f;
             final_error_types =
               (if safety_hazard_input f then final_error_types @ [SAFETY_HAZARD]
                else final_error_types)
         in (ops @
              [\<lparr>employee_id = employee_id_input f,
                date = op_date_input f,
                operation_description = op_desc_selectbox f,
                error_types = final_error_types,
                operation_remark = op_remark_input f,
                completion_degree = comp_deg_input f,
                has_safety_hazard_display = (if safety_hazard_input f then YES else NO)\<rparr>],
             Success))
      else (ops, Warning))"

text \<open>A run of submissions, each on the store the previous one left.\<close>

fun add_operations :: "form_input list \<Rightarrow> operation list \<Rightarrow> operation list" where
  "add_operations [] ops = ops"
| "add_operations (f # fs) ops = add_operations fs (fst (add_operation f ops))"

section \<open>Properties of the scoring function\<close>

subsection \<open>The penalty loop\<close>

text \<open>Every label, known or not, costs a positive penalty.\<close>

lemma penalty_pos:
  "0 < dict_get ERROR_PENALTIES e (dict_get ERROR_PENALTIES OTHER_ERROR 5)"
  by (simp add: dict_get_def ERROR_PENALTIES_def)

lemma sum_penalties_acc: "sum_penalties t es = t + sum_penalties 0 es"
proof (induction es arbitrary: t)
  case Nil
  show ?case by simp
next
  case (Cons e es)
  show ?case
    using Cons.IH [of "t + dict_get ERROR_PENALTIES e (dict_get ERROR_PENALTIES OTHER_ERROR 5)"]
      Cons.IH [of "dict_get ERROR_PENALTIES e (dict_get ERROR_PENALTIES OTHER_ERROR 5)"]
    by (simp add: Let_def)
qed

lemma sum_penalties_append:
  "sum_penalties 0 (es @ [e]) =
     sum_penalties 0 es + dict_get ERROR_PENALTIES e (dict_get ERROR_PENALTIES OTHER_ERROR 5)"
proof (induction es)
  case Nil
  show ?case by (simp add: Let_def)
next
  case (Cons x xs)
  have "sum_penalties 0 ((x # xs) @ [e]) =
      dict_get ERROR_PENALTIES x (dict_get ERROR_PENALTIES OTHER_ERROR 5) + sum_penalties 0 (xs @ [e])"
    using sum_penalties_acc [of "dict_get ERROR_PENALTIES x (dict_get ERROR_PENALTIES OTHER_ERROR 5)" "xs @ [e]"]
    by (simp add: Let_def)
  moreover have "sum_penalties 0 (x # xs) =
      dict_get ERROR_PENALTIES x (dict_get ERROR_PENALTIES OTHER_ERROR 5) + sum_penalties 0 xs"
    using sum_penalties_acc [of "dict_get ERROR_PENALTIES x (dict_get ERROR_PENALTIES OTHER_ERROR 5)" xs]
    by (simp add: Let_def)
  ultimately show ?case using Cons.IH by simp
qed

lemma sum_penalties_nonneg: "0 \<le> sum_penalties 0 es"
proof (induction es rule: rev_induct)
  case Nil
  show ?case by simp
next
  case (snoc e es)
  then show ?case
    using penalty_pos [of e] by (simp add: sum_penalties_append)
qed

lemma sum_penalties_pos: "es \<noteq> [] \<Longrightarrow> 0 < sum_penalties 0 es"
proof (induction es rule: rev_induct)
  case Nil
  then show ?case by simp
next
  case (snoc e es)
  show ?case
    using penalty_pos [of e] sum_penalties_nonneg [of es] by (simp add: sum_penalties_append)
qed

lemma hazard_penalty: "dict_get ERROR_PENALTIES SAFETY_HAZARD d = 30"
  by (simp add: dict_get_def ERROR_PENALTIES_def)

lemma no_status_tag_penalty: "dict_get ERROR_PENALTIES NO_STATUS_TAG d = 10"
  by (simp add: dict_get_def ERROR_PENALTIES_def NO_STATUS_TAG_def SAFETY_HAZARD_def
      WASTE_NOT_HANDLED_def HANDOVER_NOT_RECORDED_def)

lemma no_status_tag_not_hazard: "SAFETY_HAZARD \<noteq> NO_STATUS_TAG"
  by (simp add: NO_STATUS_TAG_def SAFETY_HAZARD_def)

lemma sum_penalties_Cons:
  "sum_penalties 0 (e # es) =
     dict_get ERROR_PENALTIES e (dict_get ERROR_PENALTIES OTHER_ERROR 5) + sum_penalties 0 es"
  using sum_penalties_acc [of "dict_get ERROR_PENALTIES e (dict_get ERROR_PENALTIES OTHER_ERROR 5)" es]
  by (simp add: Let_def)

lemma sum_penalties_app:
  "sum_penalties 0 (xs @ ys) = sum_penalties 0 xs + sum_penalties 0 ys"
proof (induction xs)
  case Nil
  show ?case by simp
next
  case (Cons x xs)
  have "sum_penalties 0 ((x # xs) @ ys) =
      dict_get ERROR_PENALTIES x (dict_get ERROR_PENALTIES OTHER_ERROR 5) + sum_penalties 0 (xs @ ys)"
    using sum_penalties_Cons [of x "xs @ ys"] by (simp del: sum_penalties.simps)
  with Cons.IH show ?case by (simp del: sum_penalties.simps add: sum_penalties_Cons [of x xs])
qed

lemma sum_penalties_insert_hazard:
  "sum_penalties 0 (xs @ SAFETY_HAZARD # ys) = sum_penalties 0 (xs @ ys) + 30"
  by (simp del: sum_penalties.simps
      add: sum_penalties_app sum_penalties_Cons [of SAFETY_HAZARD ys] hazard_penalty)

lemma hazard_penalty_le: "SAFETY_HAZARD \<in> set es \<Longrightarrow> 30 \<le> sum_penalties 0 es"
proof (induction es)
  case Nil
  then show ?case by simp
next
  case (Cons e es)
  show ?case
  proof (cases "e = SAFETY_HAZARD")
    case True
    then show ?thesis
      using sum_penalties_nonneg [of es]
      by (simp del: sum_penalties.simps add: sum_penalties_Cons [of SAFETY_HAZARD es] hazard_penalty)
  next
    case False
    with Cons.prems have "SAFETY_HAZARD \<in> set es" by simp
    then have "30 \<le> sum_penalties 0 es" by (rule Cons.IH)
    then show ?thesis
      using penalty_pos [of e] by (simp del: sum_penalties.simps add: sum_penalties_Cons [of e es])
  qed
qed

lemma clamp_with_hazard:
  fixes c P :: "'a::linordered_idom"
  assumes "30 \<le> P"
  shows "max 0 (min 100 (if c < 70 then min (c - P) 60 else c - P)) = max 0 (min 100 (c - P))"
  using assms by (auto simp: max_def min_def)

lemma calculate_score_with_hazard:
  fixes c :: "'a::linordered_idom"
  assumes h: "SAFETY_HAZARD \<in> set es"
  shows "calculate_score c es = max 0 (min 100 (c - of_int (sum_penalties 0 es)))"
proof -
  from h have le: "30 \<le> sum_penalties 0 es" by (rule hazard_penalty_le)
  then have nz: "sum_penalties 0 es \<noteq> 0" by simp
  from le have "(of_int 30 :: 'a) \<le> of_int (sum_penalties 0 es)"
    by (simp only: of_int_le_iff)
  then have "(30::'a) \<le> of_int (sum_penalties 0 es)" by simp
  from clamp_with_hazard [OF this, of c] h nz show ?thesis
    by (simp add: calculate_score_def Let_def)
qed

lemma clamp_shift:
  fixes x :: "'a::linordered_idom"
  shows "max 0 (min 100 (x - 30)) \<le> max 0 (min 100 x)"
    and "(max 0 (min 100 (x - 30)) = max 0 (min 100 x)) = (x \<le> 0 \<or> 130 \<le> x)"
  by (auto simp: max_def min_def)

lemma branches_mono:
  fixes c P Q :: "'a::linordered_idom"
  assumes "0 \<le> P" "0 < Q" "z \<longrightarrow> P = 0"
  shows "max 0 (min 100
           (if c \<ge> 95 \<and> False then 100
            else if c \<ge> 90 \<and> \<not> (h \<or> h') then max 85 (c - (P + Q))
            else if c \<ge> 80 \<and> \<not> (h \<or> h') then max 75 (c - (P + Q))
            else if c < 70 then min (c - (P + Q)) 60
            else c - (P + Q)))
       \<le> max 0 (min 100
           (if c \<ge> 95 \<and> z then 100
            else if c \<ge> 90 \<and> \<not> h then max 85 (c - P)
            else if c \<ge> 80 \<and> \<not> h then max 75 (c - P)
            else if c < 70 then min (c - P) 60
            else c - P))"
  using assms by (auto simp: max_def min_def)

subsection \<open>The claims about the score\<close>

text \<open>
  Claim C1. For every completion degree, also outside the range from 0 to 100, and every list
  of error categories, the score lies between 0 and 100.
\<close>

theorem calculate_score_in_range:
  "0 \<le> calculate_score c errors \<and> calculate_score c errors \<le> 100"
  by (simp add: calculate_score_def Let_def)

text \<open>
  Claim C2, as amended. Duplicate entries of the severe category are penalised once per
  entry. For every completion degree \<open>c\<close> and every list of error categories that holds the
  severe category, with penalty total \<open>p\<close>: one more entry of the severe category, put
  anywhere into the list, raises the total to \<open>p + 30\<close>; the score of the list is \<open>c - p\<close>
  clamped to the range from 0 to 100 and the score of the list with the further entry is
  \<open>c - p - 30\<close> clamped; so the further entry never raises the score, and the two scores are
  equal exactly when \<open>c - p \<le> 0\<close> or \<open>c - p \<ge> 130\<close>.
\<close>

theorem duplicate_hazard_score:
  fixes c :: "'a::linordered_idom"
  assumes h: "SAFETY_HAZARD \<in> set (xs @ ys)"
  shows "sum_penalties 0 (xs @ SAFETY_HAZARD # ys) = sum_penalties 0 (xs @ ys) + 30
    \<and> calculate_score c (xs @ ys) = max 0 (min 100 (c - of_int (sum_penalties 0 (xs @ ys))))
    \<and> calculate_score c (xs @ SAFETY_HAZARD # ys)
        = max 0 (min 100 (c - of_int (sum_penalties 0 (xs @ ys)) - 30))
    \<and> calculate_score c (xs @ SAFETY_HAZARD # ys) \<le> calculate_score c (xs @ ys)
    \<and> ((calculate_score c (xs @ SAFETY_HAZARD # ys) = calculate_score c (xs @ ys))
         = (c - of_int (sum_penalties 0 (xs @ ys)) \<le> 0
            \<or> 130 \<le> c - of_int (sum_penalties 0 (xs @ ys))))"
proof -
  define x where "x = c - of_int (sum_penalties 0 (xs @ ys))"
  have one: "calculate_score c (xs @ ys) = max 0 (min 100 x)"
    unfolding x_def using h by (rule calculate_score_with_hazard)
  have "SAFETY_HAZARD \<in> set (xs @ SAFETY_HAZARD # ys)" by simp
  then have "calculate_score c (xs @ SAFETY_HAZARD # ys)
      = max 0 (min 100 (c - of_int (sum_penalties 0 (xs @ SAFETY_HAZARD # ys))))"
    by (rule calculate_score_with_hazard)
  then have two: "calculate_score c (xs @ SAFETY_HAZARD # ys) = max 0 (min 100 (x - 30))"
    by (simp add: sum_penalties_insert_hazard x_def)
  show ?thesis
    unfolding x_def [symmetric] one two
    using clamp_shift [of x] sum_penalties_insert_hazard [of xs ys] by simp
qed

theorem duplicate_hazard_score_witness:
  "SAFETY_HAZARD \<in> set ([NO_STATUS_TAG] @ [SAFETY_HAZARD])
   \<and> calculate_score (80::int) ([NO_STATUS_TAG] @ [SAFETY_HAZARD]) = 40
   \<and> calculate_score (80::int) ([NO_STATUS_TAG] @ SAFETY_HAZARD # [SAFETY_HAZARD]) = 10
   \<and> calculate_score (35::int) ([NO_STATUS_TAG] @ SAFETY_HAZARD # [SAFETY_HAZARD])
       = calculate_score (35::int) ([NO_STATUS_TAG] @ [SAFETY_HAZARD])"
  using duplicate_hazard_score [of "[NO_STATUS_TAG]" "[SAFETY_HAZARD]" "80::int"]
    duplicate_hazard_score [of "[NO_STATUS_TAG]" "[SAFETY_HAZARD]" "35::int"]
  by (simp add: hazard_penalty no_status_tag_penalty Let_def)

text \<open>
  The lists of the claim's wording, the severe category alone once and twice: the totals are
  30 and 60, so the scores are equal exactly when \<open>c \<le> 30\<close> or \<open>c \<ge> 160\<close>.
\<close>

lemma duplicate_hazard_alone:
  fixes c :: "'a::linordered_idom"
  shows "calculate_score c [SAFETY_HAZARD, SAFETY_HAZARD] = max 0 (min 100 (c - 60))
    \<and> calculate_score c [SAFETY_HAZARD] = max 0 (min 100 (c - 30))
    \<and> calculate_score c [SAFETY_HAZARD, SAFETY_HAZARD] \<le> calculate_score c [SAFETY_HAZARD]
    \<and> ((calculate_score c [SAFETY_HAZARD, SAFETY_HAZARD] = calculate_score c [SAFETY_HAZARD])
         = (c \<le> 30 \<or> 160 \<le> c))"
  by (auto simp: calculate_score_def hazard_penalty Let_def max_def min_def)

text \<open>
  Claim C2 as it is written, equal scores for one and for two entries of the severe
  category, fails at the completion degree 80: the scores are 20 and 50.
\<close>

theorem duplicate_hazard_counterexample:
  "calculate_score (80::int) [SAFETY_HAZARD, SAFETY_HAZARD] = 20
   \<and> calculate_score (80::int) [SAFETY_HAZARD] = 50
   \<and> calculate_score (80::int) [SAFETY_HAZARD, SAFETY_HAZARD] \<noteq> calculate_score 80 [SAFETY_HAZARD]"
  by (simp add: calculate_score_def hazard_penalty)

text \<open>
  Claim C3. The severe category disables the floors of the bands from 90 and from 80: with
  the category in the list and a completion degree of at least 80 the score is the clamped
  difference of completion degree and penalties, and the score of completion degree 92 with
  the severe category alone is strictly below the score of 92 with no error.
\<close>

theorem hazard_disables_floors:
  fixes c :: "'a::linordered_idom"
  shows "calculate_score (92::'a) [SAFETY_HAZARD] < calculate_score 92 []
    \<and> (SAFETY_HAZARD \<in> set errors \<longrightarrow> 80 \<le> c \<longrightarrow>
         calculate_score c errors = max 0 (min 100 (c - of_int (sum_penalties 0 errors))))"
proof (intro conjI impI)
  show "calculate_score (92::'a) [SAFETY_HAZARD] < calculate_score 92 []"
    by (simp add: calculate_score_def hazard_penalty)
next
  assume h: "SAFETY_HAZARD \<in> set errors" and c: "80 \<le> c"
  from h have "errors \<noteq> []" by auto
  then have "sum_penalties 0 errors \<noteq> 0" using sum_penalties_pos [of errors] by simp
  with h c show "calculate_score c errors = max 0 (min 100 (c - of_int (sum_penalties 0 errors)))"
    by (simp add: calculate_score_def Let_def)
qed

theorem hazard_disables_floors_witness:
  "SAFETY_HAZARD \<in> set [SAFETY_HAZARD] \<and> (80::int) \<le> 92
   \<and> calculate_score (92::int) [SAFETY_HAZARD] = 62
   \<and> calculate_score (92::int) [SAFETY_HAZARD] < calculate_score 92 []"
  using hazard_disables_floors [of "[SAFETY_HAZARD]" "92::int"] by (simp add: hazard_penalty)

text \<open>
  Claim C5. For every completion degree from 95 to 100 and no error the score is exactly 100.
\<close>

theorem full_completion_scores_100:
  fixes c :: "'a::linordered_idom"
  shows "95 \<le> c \<Longrightarrow> c \<le> 100 \<Longrightarrow> calculate_score c [] = 100"
  by (simp add: calculate_score_def)

theorem full_completion_scores_100_witness: "(95::int) \<le> 97 \<and> (97::int) \<le> 100 \<and> calculate_score (97::int) [] = 100"
  using full_completion_scores_100 [of "97::int"] by simp

text \<open>
  Claim C6. For every completion degree below 70 and every list of error categories, empty
  or with the severe category, the score is at most 60.
\<close>

theorem low_completion_at_most_60:
  fixes c :: "'a::linordered_idom"
  shows "c < 70 \<Longrightarrow> calculate_score c errors \<le> 60"
  by (simp add: calculate_score_def Let_def)

theorem low_completion_at_most_60_witness: "(65::int) < 70 \<and> calculate_score (65::int) [SAFETY_HAZARD] \<le> 60"
  using low_completion_at_most_60 [of "65::int" "[SAFETY_HAZARD]"] by simp

text \<open>
  Claim C7 says that the result is an integer for every number the function accepts. The
  docstring of \<open>calculate_score\<close> announces a \<open>float\<close> argument and an \<open>int\<close> result; at the
  completion degree 85.5 with no error the function returns 85.5, which is not an integer.
\<close>

theorem calculate_score_half_not_integer:
  "calculate_score (171 / 2 :: real) [] = 171 / 2 \<and> calculate_score (171 / 2 :: real) [] \<notin> \<int>"
proof -
  have v: "calculate_score (171 / 2 :: real) [] = 171 / 2"
    by (simp add: calculate_score_def)
  have ni: "(171 / 2 :: real) \<notin> \<int>"
  proof
    assume "(171 / 2 :: real) \<in> \<int>"
    then have "frac (171 / 2 :: real) = 0" by (simp only: frac_eq_0_iff)
    then show False by (simp add: frac_def)
  qed
  have "calculate_score (171 / 2 :: real) [] \<notin> \<int>"
    unfolding v by (rule ni)
  with v show ?thesis by (rule conjI)
qed

text \<open>
  Claim C9. Adding an error category never raises the score: for every completion degree,
  every list of error categories and every further category, the score of the list with the
  category appended is at most the score of the list.
\<close>

theorem calculate_score_append_le:
  "calculate_score c (E @ [e]) \<le> calculate_score (c::'a::linordered_idom) E"
proof -
  define p where "p = sum_penalties 0 E"
  define q where "q = dict_get ERROR_PENALTIES e (dict_get ERROR_PENALTIES OTHER_ERROR 5)"
  have p: "0 \<le> p" unfolding p_def by (rule sum_penalties_nonneg)
  have q: "0 < q" unfolding q_def by (rule penalty_pos)
  have s: "sum_penalties 0 (E @ [e]) = p + q"
    unfolding p_def q_def by (rule sum_penalties_append)
  have nz: "(p + q = 0) = False" using p q by simp
  have m: "(SAFETY_HAZARD \<in> set (E @ [e])) = (SAFETY_HAZARD \<in> set E \<or> e = SAFETY_HAZARD)"
    by auto
  have "(0::'a) \<le> of_int p" "(0::'a) < of_int q" "p = 0 \<longrightarrow> (of_int p :: 'a) = 0"
    using p q by simp_all
  from branches_mono [OF this, of c "SAFETY_HAZARD \<in> set E" "e = SAFETY_HAZARD"]
  show ?thesis
    unfolding calculate_score_def Let_def s m nz of_int_add p_def [symmetric] .
qed

section \<open>Properties of the scoring pass and the aggregation\<close>

text \<open>The loop of the scoring pass appends the scored rows in the order of the records.\<close>

lemma score_loop_map:
  "score_loop scored_ops ops =
     scored_ops @
       map (\<lambda>opn. \<lparr>employee_id = employee_id opn, date = date opn,
                    operation_description = operation_description opn,
                    error_types = error_types opn,
                    score = calculate_score (completion_degree opn) (error_types opn)\<rparr>) ops"
  by (induction ops arbitrary: scored_ops) (simp_all add: Let_def)

text \<open>
  Claim C8. Empty input is no error: the scoring pass on the empty list of records gives the
  empty frame, the daily and the overall averages of the empty frame are empty, and on every
  list of records the scoring pass is the scoring function mapped over the records in their
  order.
\<close>

theorem empty_input_and_order:
  "evaluate_all_operations [] = []
   \<and> daily_employee_scores [] = []
   \<and> overall_employee_scores [] = []
   \<and> evaluate_all_operations ops =
       map (\<lambda>opn. \<lparr>employee_id = employee_id opn, date = date opn,
                    operation_description = operation_description opn,
                    error_types = error_types opn,
                    score = calculate_score (completion_degree opn) (error_types opn)\<rparr>) ops"
  by (simp add: evaluate_all_operations_def daily_employee_scores_def
      overall_employee_scores_def score_loop_map)

text \<open>
  Claim C4. The scenario of three records: employee A with completion 100 and no error,
  employee A with completion 85 and the error "status tag not hung", employee B with
  completion 60 and the severe category. Whatever their dates, descriptions and remarks,
  the scoring handler gives the scores 100, 75 and 30 and the overall averages 87.5 for A
  and 30 for B.
\<close>

theorem scenario_scores_and_averages:
  "(let recs =
      [\<lparr>employee_id = ''A'', date = d1, operation_description = od1, error_types = [],
         operation_remark = r1, completion_degree = 100, has_safety_hazard_display = NO\<rparr>,
       \<lparr>employee_id = ''A'', date = d2, operation_description = od2,
         error_types = [NO_STATUS_TAG],
         operation_remark = r2, completion_degree = 85, has_safety_hazard_display = NO\<rparr>,
       \<lparr>employee_id = ''B'', date = d3, operation_description = od3,
         error_types = [SAFETY_HAZARD],
         operation_remark = r3, completion_degree = 60, has_safety_hazard_display = YES\<rparr>];
       st' = fst (run_scoring (st\<lparr>operations := recs\<rparr>))
    in map score (individual_op_scores_df st') = [100, 75, 30]
       \<and> overall_employee_scores_df st' = [(''A'', 175 / 2), (''B'', 30)])"
  by (simp add: Let_def run_scoring_def evaluate_all_operations_def overall_employee_scores_def
      groupby_mean_def mean_def calculate_score_def hazard_penalty no_status_tag_penalty
      no_status_tag_not_hazard)

section \<open>Properties of the entry form\<close>

lemma hazard_not_option: "SAFETY_HAZARD \<notin> set PREDEFINED_ERROR_OPTIONS"
  by (simp add: PREDEFINED_ERROR_OPTIONS_def SAFETY_HAZARD_def MISSED_COUNT_def MISPLACED_def
      HANDOVER_NOT_RECORDED_def NO_STATUS_TAG_def NOT_CLEAN_def WASTE_NOT_HANDLED_def
      TOOLS_NOT_RETURNED_def LIQUID_SEAL_FAILED_def RECORDS_NONSTANDARD_def WRONG_ORDER_def
      PARAMETER_ERROR_def NONSTANDARD_OPERATION_def NOT_ON_TIME_def OTHER_ERROR_def)

lemma add_operation_keeps:
  assumes sel: "set (error_types_multiselect f) \<subseteq> set PREDEFINED_ERROR_OPTIONS"
    and inv: "\<forall>r \<in> set ops. count_list (error_types r) SAFETY_HAZARD \<le> 1"
  shows "\<forall>r \<in> set (fst (add_operation f ops)). count_list (error_types r) SAFETY_HAZARD \<le> 1"
proof -
  from sel hazard_not_option have "SAFETY_HAZARD \<notin> set (error_types_multiselect f)" by auto
  then have "count_list (error_types_multiselect f) SAFETY_HAZARD = 0"
    by (simp add: count_list_0_iff)
  with inv show ?thesis
    by (auto simp: add_operation_def Let_def)
qed

lemma add_operations_keep:
  "\<forall>f \<in> set fs. set (error_types_multiselect f) \<subseteq> set PREDEFINED_ERROR_OPTIONS \<Longrightarrow>
   \<forall>r \<in> set ops. count_list (error_types r) SAFETY_HAZARD \<le> 1 \<Longrightarrow>
   \<forall>r \<in> set (add_operations fs ops). count_list (error_types r) SAFETY_HAZARD \<le> 1"
proof (induction fs arbitrary: ops)
  case Nil
  then show ?case by simp
next
  case (Cons f fs)
  from Cons.prems have "\<forall>r \<in> set (fst (add_operation f ops)). count_list (error_types r) SAFETY_HAZARD \<le> 1"
    by (intro add_operation_keeps) simp_all
  with Cons.prems Cons.IH [of "fst (add_operation f ops)"] show ?case by simp
qed

text \<open>
  Claim C10. The multiselect offers fourteen labels and the severe category is none of them,
  so when every submission selects among the offered labels, every record that a run of
  submissions puts into the empty store holds the severe category at most once.
\<close>

theorem form_records_one_hazard:
  assumes "\<forall>f \<in> set fs. set (error_types_multiselect f) \<subseteq> set PREDEFINED_ERROR_OPTIONS"
  shows "length PREDEFINED_ERROR_OPTIONS = 14
    \<and> SAFETY_HAZARD \<notin> set PREDEFINED_ERROR_OPTIONS
    \<and> (\<forall>r \<in> set (add_operations fs []). count_list (error_types r) SAFETY_HAZARD \<le> 1)"
  using assms add_operations_keep [of fs "[]"] hazard_not_option
  by (simp add: PREDEFINED_ERROR_OPTIONS_def)

theorem form_records_one_hazard_witness:
  "set (error_types_multiselect
         \<lparr>employee_id_input = ''A'', op_date_input = (2025, 1, 1),
           op_desc_selectbox = ''item: description'', op_remark_input = [],
           comp_deg_input = 80, error_types_multiselect = [OTHER_ERROR],
           safety_hazard_input = True\<rparr>) \<subseteq> set PREDEFINED_ERROR_OPTIONS
   \<and> map (\<lambda>r. count_list (error_types r) SAFETY_HAZARD)
        (add_operations
          [\<lparr>employee_id_input = ''A'', op_date_input = (2025, 1, 1),
             op_desc_selectbox = ''item: description'', op_remark_input = [],
             comp_deg_input = 80, error_types_multiselect = [OTHER_ERROR],
             safety_hazard_input = True\<rparr>] []) = [1]"
  using form_records_one_hazard
    [of "[\<lparr>employee_id_input = ''A'', op_date_input = (2025, 1, 1),
            op_desc_selectbox = ''item: description'', op_remark_input = [],
            comp_deg_input = 80, error_types_multiselect = [OTHER_ERROR],
            safety_hazard_input = True\<rparr>]"]
  by (simp add: PREDEFINED_ERROR_OPTIONS_def add_operation_def SAFETY_HAZARD_def OTHER_ERROR_def)

end
